theory Spec2Isabelle
  imports Main
begin

section \<open>JavaScript values\<close>

text \<open>
  The values the library handles: the primitives, arrays, plain objects and function
  values. Numbers are the integer-valued ones (the claims below need no fractions);
  strings are lists of 8-bit characters. An object is the list of its own enumerable
  properties in enumeration order. A function value is a name with the values its
  closure captured: \<open>JSON.stringify\<close>, \<open>JSON.parse\<close>, and the closures returned by
  \<open>convertMap(handler)\<close> and \<open>convertArray(handler)\<close>.
\<close>

datatype fn_name = JSON_stringify_fn | JSON_parse_fn | convertMap_fn | convertArray_fn

datatype jsval =
    JUndefined
  | JNull
  | JBool bool
  | JNum int
  | JStr string
  | JArr "jsval list"
  | JObj "(string \<times> jsval) list"
  | JFun fn_name "jsval list"

datatype error = TypeError | ValidationError

text \<open>Truthiness: \<open>undefined\<close>, \<open>null\<close>, \<open>false\<close>, \<open>0\<close> and \<open>''\<close> are falsy.\<close>

fun truthy :: "jsval \<Rightarrow> bool" where
  "truthy JUndefined = False"
| "truthy JNull = False"
| "truthy (JBool b) = b"
| "truthy (JNum n) = (n \<noteq> 0)"
| "truthy (JStr s) = (s \<noteq> [])"
| "truthy (JArr xs) = True"
| "truthy (JObj kvs) = True"
| "truthy (JFun f cs) = True"

text \<open>\<open>a || b\<close> and \<open>a && b\<close>.\<close>

definition js_or :: "jsval \<Rightarrow> jsval \<Rightarrow> jsval" where
  "js_or a b = (if truthy a then a else b)"

definition js_and :: "jsval \<Rightarrow> jsval \<Rightarrow> jsval" where
  "js_and a b = (if truthy a then b else a)"

text \<open>\<open>Array.isArray(v)\<close>.\<close>

fun isArray :: "jsval \<Rightarrow> bool" where
  "isArray (JArr xs) = True"
| "isArray v = False"

text \<open>
  Reading a property of an object record: \<open>o[k]\<close> is the stored value, or \<open>undefined\<close>
  when the key is missing. \<open>k in o\<close> asks whether the key is there at all (a key stored
  with the value \<open>undefined\<close> is there).
\<close>

fun lookup :: "(string \<times> jsval) list \<Rightarrow> string \<Rightarrow> jsval" where
  "lookup [] k = JUndefined"
| "lookup ((k', v) # kvs) k = (if k' = k then v else lookup kvs k)"

definition has_key :: "string \<Rightarrow> (string \<times> jsval) list \<Rightarrow> bool" where
  "has_key k m = (k \<in> set (map fst m))"

text \<open>
  \<open>v[k]\<close> for a truthy value \<open>v\<close> and a key that is not an array index: the stored value
  for an object, \<open>undefined\<close> for everything else.
\<close>

fun get_prop :: "jsval \<Rightarrow> string \<Rightarrow> jsval" where
  "get_prop (JObj kvs) k = lookup kvs k"
| "get_prop v k = JUndefined"

text \<open>
  The order of the properties of an object: the array indices first, in ascending
  numeric order, then the other keys in the order in which they were created. An array
  index is the canonical decimal numeral of a number below \<open>2^32 - 1\<close>: digits only,
  no leading zero except for \<open>0\<close> itself.
\<close>

definition is_digit :: "char \<Rightarrow> bool" where
  "is_digit c = (c \<in> set ''0123456789'')"

definition digit_value :: "char \<Rightarrow> nat" where
  "digit_value c = of_char c - 48"

definition decimal_value :: "string \<Rightarrow> nat" where
  "decimal_value s = foldl (\<lambda>a c. 10 * a + digit_value c) 0 s"

definition is_array_index :: "string \<Rightarrow> bool" where
  "is_array_index k =
     (k \<noteq> [] \<and> list_all is_digit k \<and> (length k = 1 \<or> hd k \<noteq> CHR ''0'')
      \<and> decimal_value k < 2 ^ 32 - 1)"

text \<open>
  The assignment \<open>o[k] = v\<close>: an existing key keeps its place and takes the new value;
  a new array index goes among the array indices, in numeric order; any other new key
  goes to the end.
\<close>

fun replace_value :: "(string \<times> 'a) list \<Rightarrow> string \<Rightarrow> 'a \<Rightarrow> (string \<times> 'a) list" where
  "replace_value [] k v = []"
| "replace_value ((k', v') # kvs) k v =
     (if k' = k then (k, v) # replace_value kvs k v else (k', v') # replace_value kvs k v)"

fun insert_index :: "(string \<times> 'a) list \<Rightarrow> string \<Rightarrow> 'a \<Rightarrow> (string \<times> 'a) list" where
  "insert_index [] k v = [(k, v)]"
| "insert_index ((k', v') # kvs) k v =
     (if is_array_index k' \<and> decimal_value k' < decimal_value k
      then (k', v') # insert_index kvs k v
      else (k, v) # (k', v') # kvs)"

definition assign :: "(string \<times> 'a) list \<Rightarrow> string \<Rightarrow> 'a \<Rightarrow> (string \<times> 'a) list" where
  "assign kvs k v =
     (if k \<in> set (map fst kvs) then replace_value kvs k v
      else if is_array_index k then insert_index kvs k v
      else kvs @ [(k, v)])"

section \<open>JSON encoding\<close>

text \<open>
  \<open>JSON.stringify\<close> on the values above. \<open>undefined\<close> and functions have no JSON text:
  at top level the result is \<open>undefined\<close>, inside an array they are written \<open>null\<close>,
  inside an object their property is left out. Integers are written in decimal (as
  JavaScript does below \<open>10^21\<close>).
\<close>

fun unserializable :: "jsval \<Rightarrow> bool" where
  "unserializable JUndefined = True"
| "unserializable (JFun f cs) = True"
| "unserializable v = False"

definition hex_digit :: "nat \<Rightarrow> char" where
  "hex_digit n = ''0123456789abcdef'' ! (n mod 16)"

definition escape_char :: "char \<Rightarrow> string" where
  "escape_char c =
     (if c = CHR 0x22 then [CHR 0x5C, CHR 0x22]
      else if c = CHR 0x5C then [CHR 0x5C, CHR 0x5C]
      else if c = CHR 0x08 then [CHR 0x5C, CHR ''b'']
      else if c = CHR 0x0C then [CHR 0x5C, CHR ''f'']
      else if c = CHR 0x0A then [CHR 0x5C, CHR ''n'']
      else if c = CHR 0x0D then [CHR 0x5C, CHR ''r'']
      else if c = CHR 0x09 then [CHR 0x5C, CHR ''t'']
      else if of_char c < (32::nat)
        then [CHR 0x5C, CHR ''u'', CHR ''0'', CHR ''0'',
              hex_digit (of_char c div 16), hex_digit (of_char c)]
      else [c])"

definition quote :: "string \<Rightarrow> string" where
  "quote s = [CHR 0x22] @ concat (map escape_char s) @ [CHR 0x22]"

fun show_nat :: "nat \<Rightarrow> string" where
  "show_nat n = (if n < 10 then [''0123456789'' ! n]
                 else show_nat (n div 10) @ [''0123456789'' ! (n mod 10)])"

definition show_int :: "int \<Rightarrow> string" where
  "show_int i = (if i < 0 then CHR ''-'' # show_nat (nat (- i)) else show_nat (nat i))"

fun commas :: "string list \<Rightarrow> string" where
  "commas [] = []"
| "commas [x] = x"
| "commas (x # y # ys) = x @ '','' @ commas (y # ys)"

fun json_text :: "jsval \<Rightarrow> string"
  and json_items :: "jsval list \<Rightarrow> string list"
  and json_members :: "(string \<times> jsval) list \<Rightarrow> string list" where
  "json_text JUndefined = []"
| "json_text (JFun f cs) = []"
| "json_text JNull = ''null''"
| "json_text (JBool b) = (if b then ''true'' else ''false'')"
| "json_text (JNum n) = show_int n"
| "json_text (JStr s) = quote s"
| "json_text (JArr xs) = ''['' @ commas (json_items xs) @ '']''"
| "json_text (JObj kvs) = ''{'' @ commas (json_members kvs) @ ''}''"
| "json_items [] = []"
| "json_items (x # xs) =
     (if unserializable x then ''null'' else json_text x) # json_items xs"
| "json_members [] = []"
| "json_members ((k, v) # kvs) =
     (if unserializable v then json_members kvs
      else (quote k @ '':'' @ json_text v) # json_members kvs)"

definition JSON_stringify :: "jsval \<Rightarrow> jsval" where
  "JSON_stringify v = (if unserializable v then JUndefined else JStr (json_text v))"

section \<open>Validators and their metadata\<close>

text \<open>
  A validator of the validation engine is embedded in two parts. What it describes is a
  value of type \<open>schema\<close>: the ordered chain of metadata annotations attached by
  \<open>.meta(...)\<close>, the default function registered by \<open>.default(fn)\<close> if any, and for an
  object schema the declared child fields (\<open>_inner.children\<close>, \<open>null\<close> when no keys were
  declared). Which values it accepts is given per builder, further down, as a predicate
  on values.

  The two default functions the library registers are the closures built by
  \<open>defaults.date\<close> and \<open>defaults.uuid\<close>; each captures the \<open>default\<close> option it was
  built with.
\<close>

type_synonym annotation = "(string \<times> jsval) list"

datatype default_fn = DateDefault jsval | UuidDefault jsval

datatype schema =
  Schema (metas: "annotation list")
         (default_flag: "default_fn option")
         (children: "(string \<times> schema) list option")

text \<open>
  The engine: a fresh validator has no annotation, no default and no declared children;
  \<open>joi.object(keys)\<close> declares children. \<open>.meta(m)\<close> and \<open>.default(fn)\<close> return a
  derived validator (the engine clones the receiver) with the annotation appended,
  respectively the default set. The rule methods (\<open>guid()\<close>, \<open>integer()\<close>, \<open>min()\<close>,
  \<open>try()\<close>, \<open>pattern()\<close>, ...) leave the three components as they are.
\<close>

definition joi_base :: schema where
  "joi_base = Schema [] None None"

definition joi_object :: "(string \<times> schema) list \<Rightarrow> schema" where
  "joi_object keys = Schema [] None (Some keys)"

definition meta :: "schema \<Rightarrow> annotation \<Rightarrow> schema" where
  "meta s m = Schema (metas s @ [m]) (default_flag s) (children s)"

definition default_to :: "schema \<Rightarrow> default_fn \<Rightarrow> schema" where
  "default_to s fn = Schema (metas s) (Some fn) (children s)"

subsection \<open>\<open>findMeta\<close>, \<open>findMetaValue\<close>, \<open>toCql\<close>\<close>

text \<open>
  \<open>findMeta(any, key)\<close>: \<open>key\<close> defaults to \<open>'cql'\<close> when it is missing or empty; the
  annotations of the chain that contain the key are filtered out and the last of them is
  returned, \<open>undefined\<close> when there is none.
\<close>

definition findMeta :: "schema \<Rightarrow> string option \<Rightarrow> jsval" where
  "findMeta any key =
     (let key = (case key of None \<Rightarrow> ''cql'' | Some k \<Rightarrow> if k = [] then ''cql'' else k);
          meta = filter (has_key key) (metas any)
      in if meta = [] then JUndefined else JObj (last meta))"

definition findMetaValue :: "schema \<Rightarrow> string \<Rightarrow> jsval" where
  "findMetaValue any key = get_prop (js_or (findMeta any (Some key)) (JObj [])) key"

text \<open>
  \<open>toCql()\<close>: on a validator without declared children, \<open>findMeta(this)\<close>; on an object
  schema with children, the object built by assigning \<open>findMeta(child.schema)\<close> under
  \<open>child.key\<close> for every child in turn.
\<close>

definition toCql :: "schema \<Rightarrow> jsval" where
  "toCql s =
     (case children s of
        None \<Rightarrow> findMeta s None
      | Some cs \<Rightarrow> JObj (foldl (\<lambda>memo (key, child). assign memo key (findMeta child None)) [] cs))"

subsection \<open>Key metadata of object schemas\<close>

text \<open>
  \<open>var slice = Array.prototype.slice.call\<close> reads the property \<open>call\<close> off the function
  \<open>Array.prototype.slice\<close>: the value is \<open>Function.prototype.call\<close> itself, not bound to
  any receiver. The call \<open>slice(arguments)\<close> therefore runs \<open>Function.prototype.call\<close>
  with \<open>this\<close> undefined (the module is in strict mode), and its first step throws a
  \<open>TypeError\<close> because \<open>this\<close> is not callable, whatever the arguments are.
\<close>

definition slice :: "jsval list \<Rightarrow> error + jsval" where
  "slice arguments = Inl TypeError"

text \<open>
  Each accessor is a getter when called with no argument and a setter otherwise; the
  getter returns a value, the setter a derived schema.
\<close>

datatype result = Value jsval | Derived schema

definition lookupKeys :: "schema \<Rightarrow> jsval list \<Rightarrow> error + result" where
  "lookupKeys this arguments =
     (if length arguments = 0
      then Inr (Value (js_or (findMetaValue this ''cqlLookupKeys'') (JArr [])))
      else (case (if isArray (hd arguments) then Inr (hd arguments) else slice arguments) of
              Inl e \<Rightarrow> Inl e
            | Inr names \<Rightarrow> Inr (Derived (meta this [(''cqlLookupKeys'', names)]))))"

definition partitionKey :: "schema \<Rightarrow> jsval list \<Rightarrow> result" where
  "partitionKey this arguments =
     (if length arguments = 0
      then Value (js_or (findMetaValue this ''cqlPartitionKey'') (JArr []))
      else Derived (meta this [(''cqlPartitionKey'', hd arguments)]))"

definition clusteringKey :: "schema \<Rightarrow> jsval list \<Rightarrow> result" where
  "clusteringKey this arguments =
     (if length arguments = 0
      then Value (js_or (findMetaValue this ''cqlClusteringKey'') (JArr []))
      else Derived (meta this [(''cqlClusteringKey'', hd arguments)]))"

section \<open>Defaults\<close>

text \<open>
  The two impure sources are parameters: \<open>uuid_lib\<close> gives, for the name of a generator
  of the uuid library (\<open>v1\<close>, \<open>v4\<close>), the string that generator returns, and
  \<open>None\<close> for a name the library has no function under; \<open>now\<close> is
  \<open>new Date().toISOString()\<close>.
\<close>

record env =
  uuid_lib :: "string \<Rightarrow> string option"
  now :: string

text \<open>
  The closure of \<open>defaults.date\<close>, called with the operation of the validation context
  (\<open>config.context.operation\<close>); \<open>when\<close> is the captured \<open>options.default\<close>.
\<close>

definition date_default_fn :: "env \<Rightarrow> jsval \<Rightarrow> jsval \<Rightarrow> error + jsval" where
  "date_default_fn e when operation =
     (if when = operation \<or>
         (when = JStr ''update'' \<and> (operation = JStr ''create'' \<or> operation = JStr ''update''))
      then Inr (JStr (now e))
      else Inr JUndefined)"

text \<open>
  The closure of \<open>defaults.uuid\<close>: \<open>uuid[options.default]()\<close> calls the generator of
  that name and throws a \<open>TypeError\<close> when the library has none.
\<close>

definition uuid_default_fn :: "env \<Rightarrow> jsval \<Rightarrow> jsval \<Rightarrow> error + jsval" where
  "uuid_default_fn e d operation =
     (if operation = JStr ''create''
      then (if d = JStr ''empty'' then Inr (JStr ''00000000-0000-0000-0000-000000000000'')
            else (case d of
                    JStr name \<Rightarrow> (case uuid_lib e name of
                                    Some generated \<Rightarrow> Inr (JStr generated)
                                  | None \<Rightarrow> Inl TypeError)
                  | _ \<Rightarrow> Inl TypeError))
      else Inr JUndefined)"

fun call_default :: "env \<Rightarrow> default_fn \<Rightarrow> jsval \<Rightarrow> error + jsval" where
  "call_default e (DateDefault when) operation = date_default_fn e when operation"
| "call_default e (UuidDefault d) operation = uuid_default_fn e d operation"

text \<open>\<open>defaults[type](validator, options)\<close> for the two types of default.\<close>

datatype default_type = date | uuid

fun defaults :: "default_type \<Rightarrow> schema \<Rightarrow> jsval \<Rightarrow> schema" where
  "defaults date validator options = default_to validator (DateDefault (get_prop options ''default''))"
| "defaults uuid validator options = default_to validator (UuidDefault (get_prop options ''default''))"

text \<open>\<open>options && options.default\<close>, for an \<open>options\<close> argument that may be undefined.\<close>

definition option_default :: "jsval \<Rightarrow> jsval" where
  "option_default options = js_and options (get_prop options ''default'')"

definition defaultify :: "default_type \<Rightarrow> schema \<Rightarrow> jsval \<Rightarrow> schema" where
  "defaultify type validator options =
     (if truthy (option_default options) then defaults type validator options else validator)"

definition defaultUuid :: "jsval \<Rightarrow> string \<Rightarrow> jsval" where
  "defaultUuid options version =
     (if truthy (option_default options)
      then (if get_prop options ''default'' \<in> set [JStr version, JStr ''empty'']
            then get_prop options ''default''
            else JStr version)
      else JUndefined)"

text \<open>
  What the engine does with an absent (undefined) value of an optional field: the
  registered default function, if there is one, is called with the validation options
  and its result is the value; without one the value stays undefined. Validating the
  empty object against an object of fields does that for every field and keeps the
  fields whose value is defined.
\<close>

definition validate_absent :: "env \<Rightarrow> schema \<Rightarrow> jsval \<Rightarrow> error + jsval" where
  "validate_absent e s operation =
     (case default_flag s of
        None \<Rightarrow> Inr JUndefined
      | Some fn \<Rightarrow> call_default e fn operation)"

fun validate_empty_object :: "env \<Rightarrow> (string \<times> schema) list \<Rightarrow> jsval \<Rightarrow> error + jsval" where
  "validate_empty_object e [] operation = Inr (JObj [])"
| "validate_empty_object e ((key, s) # rest) operation =
     (case validate_absent e s operation of
        Inl err \<Rightarrow> Inl err
      | Inr v \<Rightarrow>
         (case validate_empty_object e rest operation of
            Inr (JObj kvs) \<Rightarrow> Inr (JObj (if v = JUndefined then kvs else (key, v) # kvs))
          | r \<Rightarrow> r))"

section \<open>The type builders\<close>

subsection \<open>Scalars\<close>

definition cql_int :: schema where
  "cql_int = meta joi_base [(''cql'', JBool True), (''type'', JStr ''int'')]"

definition cql_text :: schema where
  "cql_text = meta joi_base [(''cql'', JBool True), (''type'', JStr ''text'')]"

text \<open>\<open>joi.string().allow('').strict(true)\<close> accepts the strings and nothing else.\<close>

fun cql_text_accepts :: "jsval \<Rightarrow> bool" where
  "cql_text_accepts (JStr s) = True"
| "cql_text_accepts v = False"

definition cql_timestamp :: "jsval \<Rightarrow> schema" where
  "cql_timestamp options =
     defaultify date
       (meta joi_base [(''cql'', JBool True), (''type'', JStr ''timestamp''),
                       (''default'', option_default options)])
       options"

definition cql_timeuuid :: "jsval \<Rightarrow> schema" where
  "cql_timeuuid options =
     defaultify uuid
       (meta joi_base [(''cql'', JBool True), (''type'', JStr ''timeuuid''),
                       (''default'', option_default options)])
       (JObj [(''default'', defaultUuid options ''v1'')])"

definition cql_uuid :: "jsval \<Rightarrow> schema" where
  "cql_uuid options =
     defaultify uuid
       (meta joi_base [(''cql'', JBool True), (''type'', JStr ''uuid''),
                       (''default'', option_default options)])
       (JObj [(''default'', defaultUuid options ''v4'')])"

subsection \<open>\<open>json\<close>\<close>

text \<open>
  \<open>convertToJsonOnValidate(any)\<close> replaces the validator's \<open>_validate\<close> by a wrapper
  around the original one. A validation result is either an error or a value.
  \<open>joi.any()\<close> accepts every value as it is.
\<close>

definition convertToJsonOnValidate :: "(jsval \<Rightarrow> error + jsval) \<Rightarrow> jsval \<Rightarrow> error + jsval" where
  "convertToJsonOnValidate validate v =
     (case validate v of
        Inl err \<Rightarrow> Inl err
      | Inr x \<Rightarrow> if truthy x then Inr (JSON_stringify x) else Inr x)"

definition joi_any_validate :: "jsval \<Rightarrow> error + jsval" where
  "joi_any_validate v = Inr v"

definition json_annotation :: annotation where
  "json_annotation =
     [(''cql'', JBool True), (''type'', JStr ''text''),
      (''serialize'', JFun JSON_stringify_fn []), (''deserialize'', JFun JSON_parse_fn [])]"

text \<open>
  \<open>json(object)\<close>: with a shape, an object schema of that shape; without, \<open>joi.any()\<close>;
  both annotated and wrapped. The shape's own \<open>_validate\<close> is a parameter.
\<close>

definition cql_json :: "(string \<times> schema) list option \<Rightarrow> schema" where
  "cql_json object =
     (case object of
        Some keys \<Rightarrow> meta (joi_object keys) json_annotation
      | None \<Rightarrow> meta joi_base json_annotation)"

definition cql_json_validate :: "(jsval \<Rightarrow> error + jsval) option \<Rightarrow> jsval \<Rightarrow> error + jsval" where
  "cql_json_validate object_validate =
     (case object_validate of
        Some validate \<Rightarrow> convertToJsonOnValidate validate
      | None \<Rightarrow> convertToJsonOnValidate joi_any_validate)"

subsection \<open>Rules of the engine used by the builders\<close>

text \<open>
  \<open>joi.alternatives().try(a, b, ...)\<close> accepts a value that one of the alternatives
  accepts. \<open>joi.string().regex(re)\<close> accepts a non-empty string that the expression
  matches; \<open>joi.string()\<close> converts no other type to a string.
\<close>

definition alternatives_try :: "(jsval \<Rightarrow> bool) list \<Rightarrow> jsval \<Rightarrow> bool" where
  "alternatives_try alts v = list_ex (\<lambda>alt. alt v) alts"


text \<open>
  \<open>joi.array().sparse(false).items(type)\<close>, with \<open>.unique()\<close> or without: an array with
  no undefined entry, every entry accepted by \<open>type\<close>, and no two equal entries when
  unique.
\<close>

fun joi_array :: "bool \<Rightarrow> (jsval \<Rightarrow> bool) \<Rightarrow> jsval \<Rightarrow> bool" where
  "joi_array unique type (JArr xs) =
     (list_all (\<lambda>x. x \<noteq> JUndefined) xs \<and> list_all type xs \<and> (if unique then distinct xs else True))"
| "joi_array unique type v = False"

text \<open>
  \<open>joi.object().keys(children).or(peers).unknown(false)\<close>: the value is an object; every
  declared child is optional, and when present its value is accepted by the child's
  rule; no key outside the declared ones is present; at least one of the peers has a
  defined value.
\<close>

fun joi_object_keys_or :: "(string \<times> (jsval \<Rightarrow> bool)) list \<Rightarrow> string list \<Rightarrow> jsval \<Rightarrow> bool" where
  "joi_object_keys_or cs peers (JObj kvs) =
     (list_all (\<lambda>(key, rule). if lookup kvs key = JUndefined then True else rule (lookup kvs key)) cs
      \<and> list_all (\<lambda>k. k \<in> set (map fst cs)) (map fst kvs)
      \<and> list_ex (\<lambda>peer. lookup kvs peer \<noteq> JUndefined) peers)"
| "joi_object_keys_or cs peers v = False"

text \<open>
  \<open>joi.object().pattern(re, type)\<close>: an object all of whose keys match the expression,
  each value undefined or accepted by \<open>type\<close>.
\<close>

fun joi_object_pattern :: "(string \<Rightarrow> bool) \<Rightarrow> (jsval \<Rightarrow> bool) \<Rightarrow> jsval \<Rightarrow> bool" where
  "joi_object_pattern re type (JObj kvs) =
     list_all (\<lambda>(k, x). re k \<and> (if x = JUndefined then True else type x)) kvs"
| "joi_object_pattern re type v = False"

subsection \<open>Regular expressions\<close>

text \<open>
  \<open>\d\<close> is an ASCII digit. \<open>/^\d+$/\<close> matches a non-empty string of digits.
  \<open>/^\-?\d{1,19}$/m\<close> is written with the multiline flag, but the string rule of the
  engine keeps only the source of the expression it is given and rebuilds it without
  that flag: \<open>^\<close> and \<open>$\<close> match at the start and at the end of the string. The
  expression matches a string that, after one leading \<open>-\<close> if there is one, goes on
  with 1 to 19 characters, all of them digits.
\<close>

definition re_digits :: "string \<Rightarrow> bool" where
  "re_digits s = (s \<noteq> [] \<and> list_all is_digit s)"



subsection \<open>\<open>int64\<close>: \<open>bigint\<close> and \<open>counter\<close>\<close>

text \<open>
  \<open>int64(name)\<close> is an alternative of the string rule with the expression above and of
  \<open>joi.number().integer()\<close>. The latter is the engine's own rule and a parameter here.
\<close>

definition int64 :: "string \<Rightarrow> schema" where
  "int64 name = meta joi_base [(''cql'', JBool True), (''type'', JStr name)]"


definition cql_bigint :: schema where
  "cql_bigint = int64 ''bigint''"

definition cql_counter :: schema where
  "cql_counter = int64 ''counter''"

subsection \<open>Collections\<close>

text \<open>
  \<open>convertMap(handler)\<close> and \<open>convertArray(handler)\<close> return a closure over the handler.
  Reading \<open>meta.type\<close> of an undefined \<open>meta\<close> throws a \<open>TypeError\<close>: the builders fail
  on an element validator that has no annotation with the \<open>cql\<close> key.
\<close>

definition convertMap :: "jsval \<Rightarrow> jsval" where
  "convertMap handler = JFun convertMap_fn [handler]"

definition convertArray :: "jsval \<Rightarrow> jsval" where
  "convertArray handler = JFun convertArray_fn [handler]"

text \<open>The key type of a map is a string or a validator; \<open>map\<close> does not read it.\<close>

datatype key_arg = KeyName string | KeySchema schema

definition cql_map :: "key_arg \<Rightarrow> schema \<Rightarrow> error + schema" where
  "cql_map keyType valueType =
     (case findMeta valueType None of
        JObj m \<Rightarrow>
          Inr (meta joi_base
                 [(''cql'', JBool True), (''type'', JStr ''map''),
                  (''mapType'', JArr [JStr ''text'', lookup m ''type'']),
                  (''serialize'', convertMap (lookup m ''serialize'')),
                  (''deserialize'', convertMap (lookup m ''deserialize''))])
      | _ \<Rightarrow> Inl TypeError)"

definition cql_set :: "schema \<Rightarrow> error + schema" where
  "cql_set type =
     (case findMeta type None of
        JObj m \<Rightarrow>
          Inr (meta joi_base
                 [(''cql'', JBool True), (''type'', JStr ''set''),
                  (''setType'', lookup m ''type''),
                  (''serialize'', convertArray (lookup m ''serialize'')),
                  (''deserialize'', convertArray (lookup m ''deserialize''))])
      | _ \<Rightarrow> Inl TypeError)"

definition cql_set_accepts :: "(jsval \<Rightarrow> bool) \<Rightarrow> jsval \<Rightarrow> bool" where
  "cql_set_accepts type =
     alternatives_try
       [joi_array True type,
        joi_object_keys_or
          [(''add'', joi_array True type), (''remove'', joi_array True type)]
          [''add'', ''remove'']]"

definition cql_list :: "schema \<Rightarrow> error + schema" where
  "cql_list type =
     (case findMeta type None of
        JObj m \<Rightarrow>
          Inr (meta joi_base
                 [(''cql'', JBool True), (''type'', JStr ''list''),
                  (''listType'', lookup m ''type''),
                  (''serialize'', convertArray (lookup m ''serialize'')),
                  (''deserialize'', convertArray (lookup m ''deserialize''))])
      | _ \<Rightarrow> Inl TypeError)"

definition cql_list_accepts :: "(jsval \<Rightarrow> bool) \<Rightarrow> jsval \<Rightarrow> bool" where
  "cql_list_accepts type =
     alternatives_try
       [joi_array False type,
        joi_object_keys_or
          [(''prepend'', joi_array False type), (''append'', joi_array False type),
           (''remove'', joi_array False type), (''index'', joi_object_pattern re_digits type)]
          [''prepend'', ''append'', ''remove'', ''index'']]"

text \<open>A validation yields an error exactly when the value is not accepted.\<close>

definition validate_with :: "(jsval \<Rightarrow> bool) \<Rightarrow> jsval \<Rightarrow> error + jsval" where
  "validate_with accepts v = (if accepts v then Inr v else Inl ValidationError)"

section \<open>What the specification says, as definitions\<close>

text \<open>
  The definitions of this section follow the words of the specification, not the
  source; the claims compare them with the code.

  The export as the specification words it: take the last annotation containing the
  \<open>cql\<close> key, then merge in every key of all annotations of the chain in chain order,
  a later value overwriting an earlier one, keys of earlier annotations kept.
\<close>

definition merge_into :: "annotation \<Rightarrow> annotation \<Rightarrow> annotation" where
  "merge_into acc m = foldl (\<lambda>a (k, v). assign a k v) acc m"

definition spec_toCql :: "schema \<Rightarrow> jsval" where
  "spec_toCql s =
     (case findMeta s None of
        JObj last_cql \<Rightarrow> JObj (foldl merge_into last_cql (metas s))
      | _ \<Rightarrow> JUndefined)"

text \<open>
  The validator of the unit test on merged metadata:
  \<open>int().meta({some: 'metadata'}).meta({more: 'metadata'}).meta({some: 'overwritten'})\<close>.
\<close>

definition three_metas :: schema where
  "three_metas =
     meta (meta (meta cql_int [(''some'', JStr ''metadata'')]) [(''more'', JStr ''metadata'')])
          [(''some'', JStr ''overwritten'')]"

text \<open>
  A sample environment: a uuid library whose two generators return a fixed string each,
  and a fixed time.
\<close>

definition sample_uuid_lib :: "string \<Rightarrow> string option" where
  "sample_uuid_lib name =
     (if name = ''v1'' then Some ''6c84fb90-12c4-11e1-840d-7b25c5ee775a''
      else if name = ''v4'' then Some ''110ec58a-a0f2-4ac4-8393-c866d813b8d1''
      else None)"

definition sample_env :: env where
  "sample_env = \<lparr>uuid_lib = sample_uuid_lib, now = ''2015-09-18T00:59:41.840Z''\<rparr>"

text \<open>
  The canonical type of a validator is the \<open>type\<close> of its canonical annotation, the
  merged record of the specification. The name of a key type is the string itself, or
  the canonical type of the validator given. \<open>map_toCql_mapType\<close> is the expression
  \<open>map(keyType, valueType).toCql().mapType\<close>.
\<close>

definition canonical_type :: "schema \<Rightarrow> jsval" where
  "canonical_type s = get_prop (spec_toCql s) ''type''"

fun keyType_name :: "key_arg \<Rightarrow> jsval" where
  "keyType_name (KeyName n) = JStr n"
| "keyType_name (KeySchema s) = canonical_type s"

definition map_toCql_mapType :: "key_arg \<Rightarrow> schema \<Rightarrow> error + jsval" where
  "map_toCql_mapType keyType valueType =
     (case cql_map keyType valueType of
        Inl e \<Rightarrow> Inl e
      | Inr s \<Rightarrow> Inr (get_prop (toCql s) ''mapType''))"

text \<open>
  A key is settled in a validator when the validator has a last annotation with the
  \<open>cql\<close> key, that annotation has no key twice, and no other annotation of the chain
  carries the key: merging the chain then leaves the key as that annotation has it.
\<close>

definition settled :: "string \<Rightarrow> schema \<Rightarrow> bool" where
  "settled k s =
     (case findMeta s None of
        JObj m \<Rightarrow> distinct (map fst m)
                  \<and> list_all (\<lambda>a. if has_key k a then a = m else True) (metas s)
      | _ \<Rightarrow> False)"

text \<open>
  The schema that a setter call returned (a getter call returns none; the fresh
  validator stands in for it).
\<close>

fun schema_of :: "result \<Rightarrow> schema" where
  "schema_of (Derived s) = s"
| "schema_of (Value v) = joi_base"



text \<open>\<open>Object.keys(v)\<close>: the keys that appear in an object.\<close>

fun Object_keys :: "jsval \<Rightarrow> string list" where
  "Object_keys (JObj kvs) = map fst kvs"
| "Object_keys v = []"

text \<open>
  The recognized keys of a partial-update descriptor, and descriptors whose recognized
  keys carry a payload that the rule declared for that key accepts: for a list, a
  sequence of accepted elements under \<open>prepend\<close>, \<open>append\<close> and \<open>remove\<close> and a
  mapping from digit keys to accepted elements under \<open>index\<close>; for a set, a sequence of
  accepted elements without duplicates under \<open>add\<close> and \<open>remove\<close>.
\<close>

definition list_keys :: "string list" where
  "list_keys = [''prepend'', ''append'', ''remove'', ''index'']"

definition set_keys :: "string list" where
  "set_keys = [''add'', ''remove'']"

definition list_payloads_ok :: "(jsval \<Rightarrow> bool) \<Rightarrow> (string \<times> jsval) list \<Rightarrow> bool" where
  "list_payloads_ok type kvs =
     list_all (\<lambda>(k, v). if k \<in> set [''prepend'', ''append'', ''remove''] then joi_array False type v
                        else if k = ''index'' then joi_object_pattern re_digits type v
                        else True) kvs"

definition set_payloads_ok :: "(jsval \<Rightarrow> bool) \<Rightarrow> (string \<times> jsval) list \<Rightarrow> bool" where
  "set_payloads_ok type kvs =
     list_all (\<lambda>(k, v). if k \<in> set set_keys then joi_array True type v else True) kvs"

section \<open>Auxiliary facts\<close>

subsection \<open>Objects\<close>

lemma lookup_absent: "k \<notin> set (map fst kvs) \<Longrightarrow> lookup kvs k = JUndefined"
  by (induction kvs) auto

lemma lookup_present: "k \<in> set (map fst kvs) \<Longrightarrow> (k, lookup kvs k) \<in> set kvs"
proof (induction kvs)
  case Nil
  then show ?case by simp
next
  case (Cons p kvs)
  obtain k' v' where p: "p = (k', v')" by (cases p)
  show ?case
  proof (cases "k' = k")
    case True
    then show ?thesis by (simp add: p)
  next
    case False
    with Cons.prems p have "k \<in> set (map fst kvs)" by auto
    from Cons.IH [OF this] False show ?thesis by (simp add: p)
  qed
qed

text \<open>What an assignment does to the keys of an object and to the value under a key.\<close>

lemma map_fst_replace_value: "map fst (replace_value kvs k v) = map fst kvs"
  by (induction kvs) auto

lemma keys_replace_value: "fst ` set (replace_value kvs k v) = fst ` set kvs"
  using map_fst_replace_value [of kvs k v] by (metis set_map)

lemma lookup_replace_value_other:
  "k' \<noteq> k \<Longrightarrow> lookup (replace_value kvs k v) k' = lookup kvs k'"
  by (induction kvs) auto

lemma lookup_replace_value_same:
  "k \<in> fst ` set kvs \<Longrightarrow> lookup (replace_value kvs k v) k = v"
  by (induction kvs) (auto simp: rev_image_eqI)

lemma keys_insert_index: "fst ` set (insert_index kvs k v) = insert k (fst ` set kvs)"
proof (induction kvs)
  case Nil
  then show ?case by simp
next
  case (Cons p kvs)
  obtain k' v' where p: "p = (k', v')" by (cases p)
  show ?case
  proof (cases "is_array_index k' \<and> decimal_value k' < decimal_value k")
    case True
    with Cons.IH show ?thesis by (simp add: p insert_commute)
  next
    case False
    then have "insert_index (p # kvs) k v = (k, v) # p # kvs" by (auto simp: p)
    then show ?thesis by simp
  qed
qed

lemma lookup_insert_index:
  "k \<notin> fst ` set kvs \<Longrightarrow> lookup (insert_index kvs k v) k' = (if k' = k then v else lookup kvs k')"
  by (induction kvs) auto

lemma lookup_append_new:
  "k \<notin> fst ` set kvs \<Longrightarrow> lookup (kvs @ [(k, v)]) k' = (if k' = k then v else lookup kvs k')"
  by (induction kvs) auto

lemma keys_assign: "fst ` set (assign kvs k v) = insert k (fst ` set kvs)"
proof (cases "k \<in> fst ` set kvs")
  case True
  then have "insert k (fst ` set kvs) = fst ` set kvs" by auto
  with True show ?thesis by (simp add: assign_def keys_replace_value)
next
  case False
  then show ?thesis by (simp add: assign_def keys_insert_index)
qed

lemma lookup_assign: "lookup (assign kvs k v) k' = (if k' = k then v else lookup kvs k')"
  by (simp add: assign_def lookup_replace_value_other lookup_replace_value_same
      lookup_insert_index lookup_append_new)

lemma keys_foldl_assign:
  "fst ` set (foldl (\<lambda>memo (key, child). assign memo key (f child)) acc cs)
     = fst ` set acc \<union> fst ` set cs"
proof (induction cs arbitrary: acc)
  case Nil
  then show ?case by simp
next
  case (Cons c cs)
  obtain k0 c0 where c: "c = (k0, c0)" by (cases c)
  show ?case
    using Cons.IH [of "assign acc k0 (f c0)"] by (simp add: c keys_assign)
qed

lemma lookup_foldl_assign_other:
  "key \<notin> fst ` set cs \<Longrightarrow>
   lookup (foldl (\<lambda>memo (key, child). assign memo key (f child)) acc cs) key = lookup acc key"
proof (induction cs arbitrary: acc)
  case Nil
  then show ?case by simp
next
  case (Cons c cs)
  obtain k0 c0 where c: "c = (k0, c0)" by (cases c)
  from Cons.prems c have "key \<notin> fst ` set cs" "k0 \<noteq> key" by auto
  with Cons.IH [of "assign acc k0 (f c0)"] show ?case
    by (simp add: c lookup_assign)
qed

lemma lookup_foldl_assign:
  "distinct (map fst cs) \<Longrightarrow> (key, child) \<in> set cs \<Longrightarrow>
   lookup (foldl (\<lambda>memo (key, child). assign memo key (f child)) acc cs) key = f child"
proof (induction cs arbitrary: acc)
  case Nil
  then show ?case by simp
next
  case (Cons c cs)
  obtain k0 c0 where c: "c = (k0, c0)" by (cases c)
  show ?case
  proof (cases "(key, child) = (k0, c0)")
    case True
    with Cons.prems c have "key \<notin> fst ` set cs" by auto
    with True show ?thesis by (simp add: c lookup_foldl_assign_other lookup_assign)
  next
    case False
    with Cons.prems c have "(key, child) \<in> set cs" "distinct (map fst cs)" by auto
    with Cons.IH show ?thesis by (simp add: c)
  qed
qed

subsection \<open>Annotations\<close>

lemma findMeta_no_cql:
  "list_all (\<lambda>m. \<not> has_key ''cql'' m) (metas child) \<Longrightarrow> findMeta child None = JUndefined"
proof -
  assume "list_all (\<lambda>m. \<not> has_key ''cql'' m) (metas child)"
  then have "filter (has_key ''cql'') (metas child) = []"
    by (simp add: filter_empty_conv list_all_iff)
  then show ?thesis by (simp add: findMeta_def)
qed

lemma metas_foldl_meta: "metas (foldl meta s later) = metas s @ later"
  by (induction later arbitrary: s) (auto simp: meta_def)

lemma findMetaValue_later:
  "k \<noteq> [] \<Longrightarrow> list_all (\<lambda>m. \<not> has_key k m) later \<Longrightarrow>
   findMetaValue (foldl meta (meta this [(k, v)]) later) k = v"
proof -
  assume k: "k \<noteq> []" and l: "list_all (\<lambda>m. \<not> has_key k m) later"
  from l have "filter (has_key k) later = []"
    by (simp add: filter_empty_conv list_all_iff)
  with k show ?thesis
    by (simp add: findMetaValue_def findMeta_def metas_foldl_meta js_or_def)
       (simp add: meta_def has_key_def)
qed

lemma findMetaValue_other:
  "k \<noteq> [] \<Longrightarrow> k' \<noteq> k \<Longrightarrow> findMetaValue (meta this [(k', v)]) k = findMetaValue this k"
  by (simp add: findMetaValue_def findMeta_def meta_def has_key_def)

lemma findMetaValue_none:
  "k \<noteq> [] \<Longrightarrow> list_all (\<lambda>m. \<not> has_key k m) (metas this) \<Longrightarrow>
   findMetaValue this k = JUndefined"
proof -
  assume k: "k \<noteq> []" and n: "list_all (\<lambda>m. \<not> has_key k m) (metas this)"
  from n have "filter (has_key k) (metas this) = []"
    by (simp add: filter_empty_conv list_all_iff)
  with k show ?thesis
    by (simp add: findMetaValue_def findMeta_def js_or_def)
qed

subsection \<open>Merging\<close>

text \<open>
  Merging an annotation into a record changes the keys of that annotation only; on a
  settled key the merge of the whole chain and the last annotation with the \<open>cql\<close>
  key agree.
\<close>

lemma lookup_merge_into_other:
  "\<not> has_key k m \<Longrightarrow> lookup (merge_into acc m) k = lookup acc k"
  unfolding merge_into_def has_key_def
  by (induction m arbitrary: acc) (auto simp: lookup_assign)

lemma lookup_merge_into:
  "distinct (map fst m) \<Longrightarrow> has_key k m \<Longrightarrow> lookup (merge_into acc m) k = lookup m k"
proof (induction m arbitrary: acc)
  case Nil
  then show ?case by (simp add: has_key_def)
next
  case (Cons p m)
  obtain k' v' where p: "p = (k', v')" by (cases p)
  have step: "merge_into acc ((k', v') # m) = merge_into (assign acc k' v') m"
    by (simp add: merge_into_def)
  show ?case
  proof (cases "k' = k")
    case True
    with Cons.prems p have "\<not> has_key k m" by (auto simp: has_key_def)
    then have "lookup (merge_into (assign acc k' v') m) k = lookup (assign acc k' v') k"
      by (rule lookup_merge_into_other)
    then show ?thesis
      unfolding p step by (simp add: lookup_assign True)
  next
    case False
    with Cons.prems p have "distinct (map fst m)" "has_key k m" by (auto simp: has_key_def)
    with Cons.IH False show ?thesis by (simp add: p step)
  qed
qed

lemma lookup_merge_chain:
  "distinct (map fst m) \<Longrightarrow> list_all (\<lambda>a. if has_key k a then a = m else True) ms \<Longrightarrow>
   lookup acc k = lookup m k \<Longrightarrow> lookup (foldl merge_into acc ms) k = lookup m k"
proof (induction ms arbitrary: acc)
  case Nil
  then show ?case by simp
next
  case (Cons a ms)
  have "lookup (merge_into acc a) k = lookup m k"
  proof (cases "has_key k a")
    case True
    with Cons.prems have "a = m" by simp
    with True Cons.prems(1) show ?thesis by (simp add: lookup_merge_into)
  next
    case False
    with Cons.prems(3) show ?thesis by (simp add: lookup_merge_into_other)
  qed
  with Cons.IH [of "merge_into acc a"] Cons.prems show ?case by simp
qed

lemma settled_agrees:
  "settled k s \<Longrightarrow> get_prop (findMeta s None) k = get_prop (spec_toCql s) k"
  by (auto simp: settled_def spec_toCql_def lookup_merge_chain split: jsval.splits)

subsection \<open>Descriptors\<close>

lemma joi_array_defined: "joi_array u type v \<Longrightarrow> v \<noteq> JUndefined"
  by (cases v) simp_all

lemma joi_object_pattern_defined: "joi_object_pattern re type v \<Longrightarrow> v \<noteq> JUndefined"
  by (cases v) simp_all

text \<open>
  When every declared key that is present carries an accepted, defined value, the
  object rule comes down to the keys: one declared key at least, and no other key.
\<close>

lemma keys_or_iff:
  assumes ok: "\<And>key rule. (key, rule) \<in> set cs \<Longrightarrow> key \<in> set (map fst kvs) \<Longrightarrow>
                 rule (lookup kvs key) \<and> lookup kvs key \<noteq> JUndefined"
  shows "joi_object_keys_or cs (map fst cs) (JObj kvs) =
           (list_ex (\<lambda>k. k \<in> set (map fst cs)) (map fst kvs)
            \<and> list_all (\<lambda>k. k \<in> set (map fst cs)) (map fst kvs))"
proof -
  have c: "list_all (\<lambda>(key, rule). if lookup kvs key = JUndefined then True else rule (lookup kvs key)) cs"
    unfolding list_all_iff
  proof
    fix x assume x: "x \<in> set cs"
    obtain key rule where kr: "x = (key, rule)" by (cases x)
    show "case x of (key, rule) \<Rightarrow> if lookup kvs key = JUndefined then True else rule (lookup kvs key)"
    proof (cases "key \<in> set (map fst kvs)")
      case True
      with ok [of key rule] x kr show ?thesis by simp
    next
      case False
      then show ?thesis by (simp add: kr lookup_absent)
    qed
  qed
  have p: "(lookup kvs peer \<noteq> JUndefined) = (peer \<in> set (map fst kvs))"
    if "peer \<in> set (map fst cs)" for peer
  proof (cases "peer \<in> set (map fst kvs)")
    case True
    from that obtain rule where "(peer, rule) \<in> set cs" by auto
    with ok [of peer rule] True show ?thesis by simp
  next
    case False
    then show ?thesis by (simp add: lookup_absent)
  qed
  have o: "list_ex (\<lambda>peer. lookup kvs peer \<noteq> JUndefined) (map fst cs)
           = list_ex (\<lambda>k. k \<in> set (map fst cs)) (map fst kvs)"
    unfolding list_ex_iff using p by blast
  show ?thesis
    using c by (simp add: o conj_commute)
qed

lemma list_descriptor:
  assumes "list_payloads_ok type kvs"
  shows "cql_list_accepts type (JObj kvs) =
           (list_ex (\<lambda>k. k \<in> set list_keys) (map fst kvs)
            \<and> list_all (\<lambda>k. k \<in> set list_keys) (map fst kvs))"
proof -
  let ?cs = "[(''prepend'', joi_array False type), (''append'', joi_array False type),
              (''remove'', joi_array False type), (''index'', joi_object_pattern re_digits type)]"
  have ok: "rule (lookup kvs key) \<and> lookup kvs key \<noteq> JUndefined"
    if "(key, rule) \<in> set ?cs" "key \<in> set (map fst kvs)" for key rule
  proof -
    from that(2) have "(key, lookup kvs key) \<in> set kvs" by (rule lookup_present)
    with assms have
      "if key \<in> set [''prepend'', ''append'', ''remove''] then joi_array False type (lookup kvs key)
       else if key = ''index'' then joi_object_pattern re_digits type (lookup kvs key) else True"
      by (auto simp: list_payloads_ok_def list_all_iff)
    with that(1) have "rule (lookup kvs key)" by auto
    moreover from this that(1) have "lookup kvs key \<noteq> JUndefined"
      by (auto dest: joi_array_defined joi_object_pattern_defined)
    ultimately show ?thesis by simp
  qed
  have "joi_object_keys_or ?cs (map fst ?cs) (JObj kvs) =
          (list_ex (\<lambda>k. k \<in> set (map fst ?cs)) (map fst kvs)
           \<and> list_all (\<lambda>k. k \<in> set (map fst ?cs)) (map fst kvs))"
    using ok by (rule keys_or_iff)
  then show ?thesis
    by (simp add: cql_list_accepts_def alternatives_try_def list_keys_def)
qed

lemma set_descriptor:
  assumes "set_payloads_ok type kvs"
  shows "cql_set_accepts type (JObj kvs) =
           (list_ex (\<lambda>k. k \<in> set set_keys) (map fst kvs)
            \<and> list_all (\<lambda>k. k \<in> set set_keys) (map fst kvs))"
proof -
  let ?cs = "[(''add'', joi_array True type), (''remove'', joi_array True type)]"
  have ok: "rule (lookup kvs key) \<and> lookup kvs key \<noteq> JUndefined"
    if "(key, rule) \<in> set ?cs" "key \<in> set (map fst kvs)" for key rule
  proof -
    from that(2) have "(key, lookup kvs key) \<in> set kvs" by (rule lookup_present)
    with assms have
      "if key \<in> set set_keys then joi_array True type (lookup kvs key) else True"
      by (auto simp: set_payloads_ok_def list_all_iff)
    with that(1) have "rule (lookup kvs key)" by (auto simp: set_keys_def)
    moreover from this that(1) have "lookup kvs key \<noteq> JUndefined"
      by (auto dest: joi_array_defined)
    ultimately show ?thesis by simp
  qed
  have "joi_object_keys_or ?cs (map fst ?cs) (JObj kvs) =
          (list_ex (\<lambda>k. k \<in> set (map fst ?cs)) (map fst kvs)
           \<and> list_all (\<lambda>k. k \<in> set (map fst ?cs)) (map fst kvs))"
    using ok by (rule keys_or_iff)
  then show ?thesis
    by (simp add: cql_set_accepts_def alternatives_try_def set_keys_def)
qed

lemma validate_with_error: "(validate_with accepts v = Inl ValidationError) = (\<not> accepts v)"
  by (simp add: validate_with_def)

section \<open>The claims\<close>

subsection \<open>C1: export of a chain of annotations\<close>

text \<open>
  Claim C1 says that \<open>toCql()\<close> returns the last annotation containing the \<open>cql\<close> key
  with every key of all annotations of the chain merged in. On the chain of three
  \<open>.meta()\<close> attachments of the unit test, \<open>findMeta\<close> returns the annotation of the
  builder alone, \<open>{cql: true, type: 'int'}\<close>: the keys \<open>some\<close> and \<open>more\<close> are not
  in the export, whereas the merge of the specification (and the unit test) has them.
\<close>

theorem toCql_three_metas_not_merged:
  "toCql three_metas = JObj [(''cql'', JBool True), (''type'', JStr ''int'')]
   \<and> spec_toCql three_metas =
       JObj [(''cql'', JBool True), (''type'', JStr ''int''),
             (''some'', JStr ''overwritten''), (''more'', JStr ''metadata'')]"
  by (simp add: three_metas_def toCql_def spec_toCql_def findMeta_def meta_def cql_int_def
      joi_base_def has_key_def merge_into_def assign_def is_array_index_def is_digit_def)

subsection \<open>C2: \<open>uuid()\<close> and \<open>timeuuid()\<close> without options\<close>

text \<open>
  Claim C2 says that \<open>uuid()\<close> and \<open>timeuuid()\<close>, called with no options, generate a
  value for an absent field when the operation is \<open>create\<close>. Without options
  \<open>defaultUuid\<close> returns \<open>undefined\<close> and \<open>defaultify\<close> registers nothing:
  validating \<open>{}\<close> leaves the field undefined, with a uuid library at hand that
  would generate.
\<close>

theorem uuid_without_options_counterexample:
  "validate_empty_object sample_env [(''property'', cql_uuid JUndefined)] (JStr ''create'')
     = Inr (JObj [])
   \<and> validate_empty_object sample_env [(''property'', cql_timeuuid JUndefined)] (JStr ''create'')
     = Inr (JObj [])
   \<and> get_prop (JObj []) ''property'' = JUndefined"
  by (simp add: cql_uuid_def cql_timeuuid_def defaultify_def defaultUuid_def option_default_def
      js_and_def validate_absent_def meta_def joi_base_def)

text \<open>
  Claim C2, amended: for \<open>uuid()\<close> and \<open>timeuuid()\<close> called with no options,
  validating \<open>{}\<close> leaves the field undefined under every operation, \<open>create\<close>
  included. A value of the version-appropriate generator (\<open>v4\<close> for \<open>uuid\<close>, \<open>v1\<close>
  for \<open>timeuuid\<close>) is the field's value under \<open>create\<close> when the builder was given
  that version as its \<open>default\<close> option; under any other operation the field stays
  undefined then too.
\<close>

theorem uuid_default_only_on_request:
  "validate_empty_object e [(''property'', cql_uuid JUndefined)] operation = Inr (JObj [])
   \<and> validate_empty_object e [(''property'', cql_timeuuid JUndefined)] operation = Inr (JObj [])
   \<and> (uuid_lib e ''v4'' = Some g \<longrightarrow>
        validate_empty_object e
          [(''property'', cql_uuid (JObj [(''default'', JStr ''v4'')]))] (JStr ''create'')
          = Inr (JObj [(''property'', JStr g)]))
   \<and> (uuid_lib e ''v1'' = Some g \<longrightarrow>
        validate_empty_object e
          [(''property'', cql_timeuuid (JObj [(''default'', JStr ''v1'')]))] (JStr ''create'')
          = Inr (JObj [(''property'', JStr g)]))
   \<and> (operation \<noteq> JStr ''create'' \<longrightarrow>
        validate_empty_object e
          [(''property'', cql_uuid (JObj [(''default'', JStr ''v4'')]))] operation
          = Inr (JObj [])
      \<and> validate_empty_object e
          [(''property'', cql_timeuuid (JObj [(''default'', JStr ''v1'')]))] operation
          = Inr (JObj []))"
  by (simp add: cql_uuid_def cql_timeuuid_def defaultify_def defaultUuid_def option_default_def
      js_and_def validate_absent_def meta_def joi_base_def default_to_def uuid_default_fn_def)

theorem uuid_default_only_on_request_witness:
  "uuid_lib sample_env ''v4'' = Some ''110ec58a-a0f2-4ac4-8393-c866d813b8d1''
   \<and> validate_empty_object sample_env
        [(''property'', cql_uuid (JObj [(''default'', JStr ''v4'')]))] (JStr ''create'')
       = Inr (JObj [(''property'', JStr ''110ec58a-a0f2-4ac4-8393-c866d813b8d1'')])
   \<and> JStr ''update'' \<noteq> JStr ''create''
   \<and> validate_empty_object sample_env
        [(''property'', cql_uuid (JObj [(''default'', JStr ''v4'')]))] (JStr ''update'')
       = Inr (JObj [])
   \<and> validate_empty_object sample_env [(''property'', cql_uuid JUndefined)] (JStr ''update'')
       = Inr (JObj [])"
  using uuid_default_only_on_request
          [of sample_env "JStr ''update''" "''110ec58a-a0f2-4ac4-8393-c866d813b8d1''"]
  by (simp add: sample_env_def sample_uuid_lib_def)

subsection \<open>C3: JSON encoding of falsy values\<close>

text \<open>
  Claim C3 says that a field built by \<open>json()\<close> is replaced by its JSON encoding after
  a successful validation whatever its value, the falsy values \<open>''\<close>, \<open>false\<close> and
  \<open>null\<close> included. The wrapper encodes only a truthy value: the three falsy values
  come back as they went in, not as the strings \<open>""\<close>, \<open>false\<close> and \<open>null\<close>.
\<close>

theorem json_falsy_values_not_encoded:
  "cql_json_validate None (JStr []) = Inr (JStr [])
   \<and> cql_json_validate None (JBool False) = Inr (JBool False)
   \<and> cql_json_validate None JNull = Inr JNull
   \<and> JSON_stringify (JStr []) = JStr [CHR 0x22, CHR 0x22]
   \<and> JSON_stringify (JBool False) = JStr ''false''
   \<and> JSON_stringify JNull = JStr ''null''"
  by (simp add: cql_json_validate_def convertToJsonOnValidate_def joi_any_validate_def
      JSON_stringify_def quote_def)

subsection \<open>C4: the \<open>mapType\<close> of a map\<close>

text \<open>
  Claim C4 says that the first component of \<open>mapType\<close> is the name of the key type
  given. For the key type \<open>int()\<close> and the value type \<open>text()\<close> that would be
  \<open>['int', 'text']\<close>; the builder writes \<open>['text', 'text']\<close>.
\<close>

theorem map_mapType_counterexample:
  "map_toCql_mapType (KeySchema cql_int) cql_text = Inr (JArr [JStr ''text'', JStr ''text''])
   \<and> map_toCql_mapType (KeySchema cql_int) cql_text
       \<noteq> Inr (JArr [keyType_name (KeySchema cql_int), canonical_type cql_text])"
  by (simp add: map_toCql_mapType_def cql_map_def canonical_type_def spec_toCql_def
      merge_into_def assign_def findMeta_def cql_int_def cql_text_def meta_def joi_base_def
      has_key_def toCql_def)

text \<open>
  Claim C4, amended: for every key-type argument and every value-type validator in
  which the \<open>type\<close> key is settled (the validator has an annotation with the \<open>cql\<close>
  key, and no annotation of its chain other than the last such one carries \<open>type\<close>),
  \<open>map(keyType, valueType).toCql().mapType\<close> is the pair of the constant \<open>'text'\<close>
  and the canonical type of the value type: the key type given is not read. Value types
  in which a further annotation carries \<open>type\<close> are left out.
\<close>

theorem map_mapType_text:
  assumes "settled ''type'' valueType"
  shows "map_toCql_mapType keyType valueType
           = Inr (JArr [JStr ''text'', canonical_type valueType])"
proof -
  from assms obtain m where m: "findMeta valueType None = JObj m"
    by (auto simp: settled_def split: jsval.splits)
  from settled_agrees [OF assms] m have t: "lookup m ''type'' = canonical_type valueType"
    by (simp add: canonical_type_def)
  have "cql_map keyType valueType =
          Inr (meta joi_base
                 [(''cql'', JBool True), (''type'', JStr ''map''),
                  (''mapType'', JArr [JStr ''text'', canonical_type valueType]),
                  (''serialize'', convertMap (lookup m ''serialize'')),
                  (''deserialize'', convertMap (lookup m ''deserialize''))])"
    by (simp add: cql_map_def m t)
  then show ?thesis
    by (simp add: map_toCql_mapType_def toCql_def meta_def joi_base_def findMeta_def has_key_def)
qed

theorem map_mapType_text_witness:
  "settled ''type'' (meta cql_text [(''some'', JStr ''metadata'')])
   \<and> map_toCql_mapType (KeyName ''int'') (meta cql_text [(''some'', JStr ''metadata'')])
       = Inr (JArr [JStr ''text'', JStr ''text''])"
  using map_mapType_text [of "meta cql_text [(''some'', JStr ''metadata'')]" "KeyName ''int''"]
  by (simp add: settled_def canonical_type_def spec_toCql_def merge_into_def assign_def
      is_array_index_def is_digit_def findMeta_def cql_text_def meta_def joi_base_def has_key_def)

subsection \<open>C5: the 64-bit bound of \<open>bigint\<close> and \<open>counter\<close>\<close>




subsection \<open>C6: \<open>lookupKeys\<close> with several arguments\<close>

text \<open>
  Claim C6 says that \<open>lookupKeys('a', 'b', 'c')\<close> succeeds and stores the sequence of
  its arguments. The first argument is not an array, so the arguments go to \<open>slice\<close>,
  which throws: the call ends in a \<open>TypeError\<close> on every schema.
\<close>

theorem lookupKeys_variadic_throws:
  "lookupKeys this [JStr ''a'', JStr ''b'', JStr ''c''] = Inl TypeError"
  by (simp add: lookupKeys_def slice_def)

subsection \<open>C7: \<open>partitionKey\<close> and \<open>clusteringKey\<close>\<close>

text \<open>
  Claim C7 says that the getter returns the last-assigned value verbatim, a string
  staying a string. The empty string is stored and read back as the empty sequence.
\<close>

theorem partitionKey_empty_string_counterexample:
  "partitionKey joi_base [JStr []] = Derived (meta joi_base [(''cqlPartitionKey'', JStr [])])
   \<and> partitionKey (meta joi_base [(''cqlPartitionKey'', JStr [])]) [] = Value (JArr [])
   \<and> Value (JArr []) \<noteq> Value (JStr [])"
  by (simp add: partitionKey_def findMetaValue_def findMeta_def meta_def joi_base_def
      has_key_def js_or_def)

text \<open>
  Claim C7, amended: for every object schema, \<open>partitionKey()\<close> and \<open>clusteringKey()\<close>
  with no argument return the value of the last assignment of that key, whatever
  annotations without that key were attached after it (an assignment of the other key
  among them): verbatim when the value is truthy (every sequence, every non-empty
  string), the empty sequence when it is falsy (\<open>null\<close>, the empty string), and the
  empty sequence too when the key was never assigned. A setter call returns a derived
  schema on which the other key and the export read as on the original. (The schemas of
  this theory are values: no call changes its receiver.)
\<close>

theorem key_last_assigned:
  "(list_all (\<lambda>m. \<not> has_key ''cqlPartitionKey'' m) later \<longrightarrow>
      partitionKey (foldl meta (schema_of (partitionKey this [v])) later) []
        = Value (if truthy v then v else JArr []))
   \<and> (list_all (\<lambda>m. \<not> has_key ''cqlClusteringKey'' m) later \<longrightarrow>
      clusteringKey (foldl meta (schema_of (clusteringKey this [v])) later) []
        = Value (if truthy v then v else JArr []))
   \<and> (list_all (\<lambda>m. \<not> has_key ''cqlPartitionKey'' m) (metas this) \<longrightarrow>
        partitionKey this [] = Value (JArr []))
   \<and> (list_all (\<lambda>m. \<not> has_key ''cqlClusteringKey'' m) (metas this) \<longrightarrow>
        clusteringKey this [] = Value (JArr []))
   \<and> clusteringKey (schema_of (partitionKey this [v])) [] = clusteringKey this []
   \<and> partitionKey (schema_of (clusteringKey this [v])) [] = partitionKey this []
   \<and> toCql (schema_of (partitionKey this [v])) = toCql this
   \<and> toCql (schema_of (clusteringKey this [v])) = toCql this"
proof -
  have s: "schema_of (partitionKey this [v]) = meta this [(''cqlPartitionKey'', v)]"
          "schema_of (clusteringKey this [v]) = meta this [(''cqlClusteringKey'', v)]"
    by (simp_all add: partitionKey_def clusteringKey_def)
  have g: "partitionKey x [] = Value (js_or (findMetaValue x ''cqlPartitionKey'') (JArr []))"
          "clusteringKey x [] = Value (js_or (findMetaValue x ''cqlClusteringKey'') (JArr []))"
    for x
    by (simp_all add: partitionKey_def clusteringKey_def)
  have e: "toCql (meta this [(''cqlPartitionKey'', v)]) = toCql this"
          "toCql (meta this [(''cqlClusteringKey'', v)]) = toCql this"
    by (simp_all add: toCql_def meta_def findMeta_def has_key_def Let_def split: option.splits)
  show ?thesis
    by (simp add: s g e findMetaValue_later findMetaValue_none findMetaValue_other js_or_def)
qed

theorem key_last_assigned_witness:
  "list_all (\<lambda>m. \<not> has_key ''cqlPartitionKey'' m) [[(''cqlClusteringKey'', JStr ''album_id'')]]
   \<and> partitionKey
        (schema_of (clusteringKey (schema_of (partitionKey joi_base [JStr ''artist_id'']))
                      [JStr ''album_id''])) []
       = Value (JStr ''artist_id'')
   \<and> partitionKey
        (schema_of (partitionKey (schema_of (partitionKey joi_base [JStr ''orion_id'']))
                      [JArr [JStr ''a'', JStr ''b'']])) []
       = Value (JArr [JStr ''a'', JStr ''b''])
   \<and> partitionKey
        (schema_of (partitionKey (schema_of (partitionKey joi_base [JStr ''orion_id''])) [JNull])) []
       = Value (JArr [])
   \<and> list_all (\<lambda>m. \<not> has_key ''cqlClusteringKey'' m) (metas joi_base)
   \<and> clusteringKey joi_base [] = Value (JArr [])"
  using key_last_assigned [of "[[(''cqlClusteringKey'', JStr ''album_id'')]]" joi_base
                              "JStr ''artist_id''"]
        key_last_assigned [of "[]" "schema_of (partitionKey joi_base [JStr ''orion_id''])"
                              "JArr [JStr ''a'', JStr ''b'']"]
        key_last_assigned [of "[]" "schema_of (partitionKey joi_base [JStr ''orion_id''])" JNull]
        key_last_assigned [of "[]" joi_base JNull]
  by (simp add: joi_base_def has_key_def clusteringKey_def partitionKey_def)

subsection \<open>C8: partial-update descriptors of lists and sets\<close>

text \<open>
  Claim C8 says that a descriptor yields an error if and only if it has no recognized
  key or has an unrecognized one, and that a descriptor with exactly one recognized key
  whose elements satisfy the element type is valid. For a set of text elements the
  descriptor \<open>{add: ['x', 'x']}\<close> has one recognized key, no other key, and elements of
  the element type; it yields an error, because \<open>add\<close> and \<open>remove\<close> are held to the
  rule of the set itself, which forbids duplicates.
\<close>

theorem set_descriptor_duplicates_counterexample:
  "validate_with (cql_set_accepts cql_text_accepts) (JObj [(''add'', JArr [JStr ''x'', JStr ''x''])])
     = Inl ValidationError
   \<and> list_all cql_text_accepts [JStr ''x'', JStr ''x'']
   \<and> list_ex (\<lambda>k. k \<in> set set_keys) (map fst [(''add'', JArr [JStr ''x'', JStr ''x''])])
   \<and> list_all (\<lambda>k. k \<in> set set_keys) (map fst [(''add'', JArr [JStr ''x'', JStr ''x''])])"
  by (simp add: validate_with_def cql_set_accepts_def alternatives_try_def set_keys_def)

text \<open>
  Claim C8, amended: for list and set validators, a descriptor object each of whose
  recognized keys carries a payload accepted for that key (a sequence of elements of the
  element type, without duplicates for a set; under \<open>index\<close> a mapping from digit keys
  to such elements) yields an error if and only if it contains no recognized key or
  contains an unrecognized key. So \<open>{remove: ['x']}\<close> is valid for text elements, and
  \<open>{}\<close> and \<open>{append: ['x'], bogus: 1}\<close> are not.
\<close>

theorem descriptor_error_iff:
  "(list_payloads_ok type kvs \<longrightarrow>
      (validate_with (cql_list_accepts type) (JObj kvs) = Inl ValidationError)
      = (\<not> list_ex (\<lambda>k. k \<in> set list_keys) (map fst kvs)
         \<or> list_ex (\<lambda>k. k \<notin> set list_keys) (map fst kvs)))
   \<and> (set_payloads_ok type kvs \<longrightarrow>
      (validate_with (cql_set_accepts type) (JObj kvs) = Inl ValidationError)
      = (\<not> list_ex (\<lambda>k. k \<in> set set_keys) (map fst kvs)
         \<or> list_ex (\<lambda>k. k \<notin> set set_keys) (map fst kvs)))"
proof -
  have n: "(\<not> list_all P xs) = list_ex (\<lambda>x. \<not> P x) xs" for P and xs :: "string list"
    by (simp add: list_all_iff list_ex_iff)
  show ?thesis
    by (simp add: validate_with_error list_descriptor set_descriptor n)
qed

theorem descriptor_error_iff_witness:
  "list_payloads_ok cql_text_accepts [(''remove'', JArr [JStr ''x''])]
   \<and> validate_with (cql_list_accepts cql_text_accepts) (JObj [(''remove'', JArr [JStr ''x''])])
       \<noteq> Inl ValidationError
   \<and> set_payloads_ok cql_text_accepts [(''remove'', JArr [JStr ''x''])]
   \<and> validate_with (cql_set_accepts cql_text_accepts) (JObj [(''remove'', JArr [JStr ''x''])])
       \<noteq> Inl ValidationError
   \<and> list_payloads_ok cql_text_accepts [(''append'', JArr [JStr ''x'']), (''bogus'', JNum 1)]
   \<and> validate_with (cql_list_accepts cql_text_accepts)
         (JObj [(''append'', JArr [JStr ''x'']), (''bogus'', JNum 1)]) = Inl ValidationError
   \<and> list_payloads_ok cql_text_accepts []
   \<and> validate_with (cql_list_accepts cql_text_accepts) (JObj []) = Inl ValidationError"
  using descriptor_error_iff [of cql_text_accepts "[(''remove'', JArr [JStr ''x''])]"]
        descriptor_error_iff [of cql_text_accepts "[(''append'', JArr [JStr ''x'']), (''bogus'', JNum 1)]"]
        descriptor_error_iff [of cql_text_accepts "[]"]
  by (simp add: list_payloads_ok_def set_payloads_ok_def list_keys_def set_keys_def)

subsection \<open>C9: export of an object schema\<close>

text \<open>
  Claim C9 says that a field without the \<open>cql\<close> key does not appear as a key of the
  export of an object schema. The export of \<open>{name: text(), note: joi.string()}\<close> has
  the key \<open>note\<close>, with the value \<open>undefined\<close>.
\<close>

theorem toCql_object_counterexample:
  "toCql (joi_object [(''name'', cql_text), (''note'', joi_base)])
     = JObj [(''name'', JObj [(''cql'', JBool True), (''type'', JStr ''text'')]),
             (''note'', JUndefined)]
   \<and> ''note'' \<in> set (Object_keys (toCql (joi_object [(''name'', cql_text), (''note'', joi_base)])))"
  by (simp add: toCql_def joi_object_def findMeta_def cql_text_def meta_def joi_base_def has_key_def
      assign_def is_array_index_def is_digit_def)

text \<open>
  Claim C9, amended: for every object schema with declared child fields (of distinct
  names), \<open>toCql()\<close> returns a mapping whose keys are the names of all declared child
  fields, in whatever order they were declared. A field none of whose annotations has
  the \<open>cql\<close> key is not left out: it is a key of the export, with the value
  \<open>undefined\<close>. A field that has such an annotation maps to a record that agrees with
  the merged annotation of the field on every key settled in the field (every key that
  no annotation other than the last one with the \<open>cql\<close> key carries); the other keys of
  the merged annotation are left out.
\<close>

theorem toCql_object_every_child:
  assumes "children s = Some cs" and "distinct (map fst cs)"
  shows "set (Object_keys (toCql s)) = set (map fst cs)
         \<and> (\<forall>(key, child) \<in> set cs.
              (list_all (\<lambda>m. \<not> has_key ''cql'' m) (metas child) \<longrightarrow>
                 get_prop (toCql s) key = JUndefined)
              \<and> (\<forall>k. settled k child \<longrightarrow>
                 get_prop (get_prop (toCql s) key) k = get_prop (spec_toCql child) k))"
proof -
  let ?r = "foldl (\<lambda>memo (key, child). assign memo key (findMeta child None)) [] cs"
  have t: "toCql s = JObj ?r"
    using assms(1) by (simp add: toCql_def)
  have k: "set (Object_keys (toCql s)) = set (map fst cs)"
    using keys_foldl_assign [of "\<lambda>child. findMeta child None" "[]" cs] by (simp add: t)
  have v: "get_prop (toCql s) key = findMeta child None" if "(key, child) \<in> set cs" for key child
    using lookup_foldl_assign [OF assms(2) that, of "\<lambda>child. findMeta child None" "[]"]
    by (simp add: t)
  have u: "get_prop (toCql s) key = JUndefined"
    if "(key, child) \<in> set cs" "list_all (\<lambda>m. \<not> has_key ''cql'' m) (metas child)" for key child
    using that by (simp add: v findMeta_no_cql)
  have m: "get_prop (get_prop (toCql s) key) k = get_prop (spec_toCql child) k"
    if "(key, child) \<in> set cs" "settled k child" for key child k
    using that by (simp add: v settled_agrees)
  from k u m show ?thesis by auto
qed

theorem toCql_object_every_child_witness:
  "children (joi_object [(''b'', cql_int), (''1'', joi_base)])
     = Some [(''b'', cql_int), (''1'', joi_base)]
   \<and> distinct (map fst [(''b'', cql_int), (''1'', joi_base)])
   \<and> set (Object_keys (toCql (joi_object [(''b'', cql_int), (''1'', joi_base)]))) = {''b'', ''1''}
   \<and> get_prop (toCql (joi_object [(''b'', cql_int), (''1'', joi_base)])) ''1'' = JUndefined
   \<and> settled ''type'' cql_int
   \<and> get_prop (get_prop (toCql (joi_object [(''b'', cql_int), (''1'', joi_base)])) ''b'') ''type''
       = JStr ''int''"
  using toCql_object_every_child [of "joi_object [(''b'', cql_int), (''1'', joi_base)]"
                                     "[(''b'', cql_int), (''1'', joi_base)]"]
  by (simp add: joi_object_def joi_base_def settled_def cql_int_def meta_def findMeta_def has_key_def
      spec_toCql_def merge_into_def assign_def is_array_index_def is_digit_def)

subsection \<open>C10: an unsupported \<open>default\<close> option of \<open>uuid\<close> and \<open>timeuuid\<close>\<close>

text \<open>
  Claim C10 says that a \<open>default\<close> option string that is neither \<open>'empty'\<close> nor the
  version of the builder is replaced by that version. The empty string is such a string;
  with it no default is registered at all.
\<close>

theorem uuid_empty_default_counterexample:
  "default_flag (cql_uuid (JObj [(''default'', JStr [])])) = None
   \<and> default_flag (cql_uuid (JObj [(''default'', JStr [])])) \<noteq> Some (UuidDefault (JStr ''v4''))"
  by (simp add: cql_uuid_def defaultify_def defaultUuid_def option_default_def js_and_def
      meta_def joi_base_def)

text \<open>
  Claim C10, amended: when \<open>uuid()\<close> or \<open>timeuuid()\<close> is called with a non-empty
  \<open>default\<close> option string that is neither \<open>'empty'\<close> nor the version of the builder
  (\<open>v4\<close> for \<open>uuid\<close>, \<open>v1\<close> for \<open>timeuuid\<close>), the default registered is the one of
  the builder's version: for an absent value under the operation \<open>create\<close> it calls the
  generator of that version. The \<open>default\<close> field of the canonical annotation still
  records the string given.
\<close>

theorem uuid_unsupported_default_replaced:
  assumes "get_prop options ''default'' = JStr d" and "d \<noteq> []" and "d \<noteq> ''empty''"
  shows "(d \<noteq> ''v4'' \<longrightarrow>
            default_flag (cql_uuid options) = Some (UuidDefault (JStr ''v4''))
          \<and> validate_absent e (cql_uuid options) (JStr ''create'') =
              (case uuid_lib e ''v4'' of
                 Some generated \<Rightarrow> Inr (JStr generated)
               | None \<Rightarrow> Inl TypeError)
          \<and> get_prop (toCql (cql_uuid options)) ''default'' = JStr d)
       \<and> (d \<noteq> ''v1'' \<longrightarrow>
            default_flag (cql_timeuuid options) = Some (UuidDefault (JStr ''v1''))
          \<and> validate_absent e (cql_timeuuid options) (JStr ''create'') =
              (case uuid_lib e ''v1'' of
                 Some generated \<Rightarrow> Inr (JStr generated)
               | None \<Rightarrow> Inl TypeError)
          \<and> get_prop (toCql (cql_timeuuid options)) ''default'' = JStr d)"
proof -
  from assms(1) obtain kvs where o: "options = JObj kvs"
    by (cases options) auto
  with assms(1) have l: "lookup kvs ''default'' = JStr d" by simp
  show ?thesis
    using assms(2,3)
    by (simp add: o l cql_uuid_def cql_timeuuid_def defaultify_def defaultUuid_def
        option_default_def js_and_def meta_def joi_base_def default_to_def validate_absent_def
        uuid_default_fn_def toCql_def findMeta_def has_key_def)
qed

theorem uuid_unsupported_default_replaced_witness:
  "default_flag (cql_uuid (JObj [(''default'', JStr ''v1'')])) = Some (UuidDefault (JStr ''v4''))
   \<and> get_prop (toCql (cql_uuid (JObj [(''default'', JStr ''v1'')]))) ''default'' = JStr ''v1''
   \<and> default_flag (cql_timeuuid (JObj [(''default'', JStr ''v4'')])) = Some (UuidDefault (JStr ''v1''))
   \<and> get_prop (toCql (cql_timeuuid (JObj [(''default'', JStr ''v4'')]))) ''default'' = JStr ''v4''"
  using uuid_unsupported_default_replaced [of "JObj [(''default'', JStr ''v1'')]" "''v1''"]
        uuid_unsupported_default_replaced [of "JObj [(''default'', JStr ''v4'')]" "''v4''"]
  by simp

end
